theory Spec2Isabelle
  imports Complex_Main "HOL-Library.Char_ord" "HOL-Library.List_Lexorder"
begin

section \<open>Cross-platform identity analysis: a shallow embedding\<close>

text \<open>
  The development embeds the parts of \<^verbatim>\<open>src/analysis/cross_platform_analyzer.py\<close>,
  \<^verbatim>\<open>src/analysis/cross_platform_correlator.py\<close> and \<^verbatim>\<open>src/search/advanced_discovery.py\<close>
  that normalise identifiers, score pairs of profiles, fuse the scores and consolidate
  matches. Conventions:
  \<^item> a Python \<^verbatim>\<open>float\<close> is a \<open>real\<close>: the arithmetic is exact, rounding is not modelled;
  \<^item> a Python \<^verbatim>\<open>str\<close> is a \<open>string\<close>; characters are classified by the ASCII rules
    (letters, digits, underscore, whitespace), so the model speaks about ASCII text;
  \<^item> a dictionary whose keys are optional is a record of \<open>option\<close> fields; a dictionary
    that is iterated in insertion order is an association list;
  \<^item> an exception is a value \<open>Inl e\<close> of the result type \<open>py_error + 'a\<close>.
\<close>

datatype py_error = NameError | KeyError | AttributeError | OSError

subsection \<open>The data\<close>

text \<open>
  A profile, a post and a record of the batch, as the fetchers store them (JSON objects
  whose entries may be absent; the entries read here are strings). Then the dictionaries
  returned by the five analyses: only the list that the fusion step reads is kept, and
  its entries are records of the fields the analyses write.
\<close>

record profile =
  username :: "string option"
  display_name :: "string option"
  full_name :: "string option"
  channel_name :: "string option"
  biography :: "string option"
  bio :: "string option"
  description :: "string option"

record post =
  caption :: "string option"
  content :: "string option"
  date :: "string option"

record profile_data =
  platform :: "string option"
  pd_profile :: "profile option"
  posts :: "post list"

record cp_match =
  match_type :: string
  confidence :: real
  profiles :: "(string \<times> profile_data) list"
  match_identifier :: string




record sync_post =
  time1 :: int
  time2 :: int
  time_diff_minutes :: real
  post1_index :: nat
  post2_index :: nat

record timing_match =
  platform1 :: string
  platform2 :: string
  timing_correlation_score :: real
  synchronized_posts :: "sync_post list"



subsection \<open>Score fusion: \<^verbatim>\<open>generate_identity_confidence_score\<close>\<close>






subsection \<open>Strings: the library functions the normalisers call\<close>

text \<open>
  \<^verbatim>\<open>str.lower\<close>, and the character classes \<^verbatim>\<open>\d\<close>, \<^verbatim>\<open>\w\<close> and \<^verbatim>\<open>\s\<close> of the module
  \<^verbatim>\<open>re\<close>, on ASCII. The whitespace of \<^verbatim>\<open>\s\<close> and of \<^verbatim>\<open>str.split()\<close> is the same set:
  the characters 9 to 13, 28 to 31 and the blank.
\<close>

definition ascii_upper :: string where "ascii_upper = ''ABCDEFGHIJKLMNOPQRSTUVWXYZ''"
definition ascii_lower :: string where "ascii_lower = ''abcdefghijklmnopqrstuvwxyz''"
definition ascii_digits :: string where "ascii_digits = ''0123456789''"

definition lower_char :: "char \<Rightarrow> char" where
  "lower_char c = (case map_of (zip ascii_upper ascii_lower) c of Some d \<Rightarrow> d | None \<Rightarrow> c)"

definition upper_char :: "char \<Rightarrow> char" where
  "upper_char c = (case map_of (zip ascii_lower ascii_upper) c of Some d \<Rightarrow> d | None \<Rightarrow> c)"

definition lower :: "string \<Rightarrow> string" where
  "lower s = map lower_char s"

definition upper :: "string \<Rightarrow> string" where
  "upper s = map upper_char s"

definition is_digit :: "char \<Rightarrow> bool" where
  "is_digit c = (c \<in> set ascii_digits)"

definition is_word :: "char \<Rightarrow> bool" where
  "is_word c = (c \<in> set (ascii_lower @ ascii_upper @ ascii_digits @ ''_''))"

definition is_space :: "char \<Rightarrow> bool" where
  "is_space c = (c \<in> set [CHR 0x09, CHR 0x0A, CHR 0x0B, CHR 0x0C, CHR 0x0D,
                             CHR 0x1C, CHR 0x1D, CHR 0x1E, CHR 0x1F, CHR '' ''])"

text \<open>\<^verbatim>\<open>s.split()\<close>: the maximal runs of characters that are not whitespace.\<close>

fun split_ws :: "string \<Rightarrow> string list" where
  "split_ws [] = []"
| "split_ws (c # cs) =
     (if is_space c then split_ws cs
      else if cs = [] \<or> is_space (hd cs) then [c] # split_ws cs
      else (case split_ws cs of [] \<Rightarrow> [[c]] | w # ws \<Rightarrow> (c # w) # ws))"

text \<open>\<^verbatim>\<open>' '.join(ws)\<close>.\<close>

fun join_blank :: "string list \<Rightarrow> string" where
  "join_blank [] = []"
| "join_blank [w] = w"
| "join_blank (w # ws) = w @ '' '' @ join_blank ws"

text \<open>
  \<^verbatim>\<open>re.sub(r'\d+$', '', s)\<close>. Without the flag \<^verbatim>\<open>MULTILINE\<close>, \<^verbatim>\<open>$\<close> matches at the end of
  the string and also just before a newline that is the last character; so the run of
  digits that is removed is the one at the end or, when the string ends with a newline,
  the one just before that newline.
\<close>

definition strip_trailing_digits :: "string \<Rightarrow> string" where
  "strip_trailing_digits s = rev (dropWhile is_digit (rev s))"

definition sub_trailing_digits :: "string \<Rightarrow> string" where
  "sub_trailing_digits s =
     (if s \<noteq> [] \<and> last s = CHR 0x0A then strip_trailing_digits (butlast s) @ [CHR 0x0A]
      else strip_trailing_digits s)"

text \<open>
  \<^verbatim>\<open>re.sub(r'http\S+|@\w+|#\w+', '', s)\<close>: scanning from the left, a match is deleted
  and the scan goes on behind it; the repetitions are greedy.
\<close>

function sub_url_mention_hashtag :: "string \<Rightarrow> string" where
  "sub_url_mention_hashtag [] = []"
| "sub_url_mention_hashtag (c # cs) =
     (if take 4 (c # cs) = ''http'' \<and> drop 3 cs \<noteq> [] \<and> \<not> is_space (hd (drop 3 cs))
      then sub_url_mention_hashtag (dropWhile (\<lambda>x. \<not> is_space x) (drop 3 cs))
      else if (c = CHR ''@'' \<or> c = CHR ''#'') \<and> cs \<noteq> [] \<and> is_word (hd cs)
      then sub_url_mention_hashtag (dropWhile is_word cs)
      else c # sub_url_mention_hashtag cs)"
  by pat_completeness auto
termination
proof (relation "measure length")
  fix c :: char and cs :: string
  have "length (dropWhile (\<lambda>x. \<not> is_space x) (drop 3 cs)) \<le> length (drop 3 cs)"
    by (rule length_dropWhile_le)
  then show "(dropWhile (\<lambda>x. \<not> is_space x) (drop 3 cs), c # cs) \<in> measure length"
    by simp
  have "length (dropWhile is_word cs) \<le> length cs"
    by (rule length_dropWhile_le)
  then show "(dropWhile is_word cs, c # cs) \<in> measure length"
    by simp
qed simp_all

subsection \<open>The normalisers\<close>

text \<open>The character class \<^verbatim>\<open>[._-]\<close>.\<close>

definition is_separator :: "char \<Rightarrow> bool" where
  "is_separator c = (c \<in> set ''._-'')"

definition normalize_username :: "string \<Rightarrow> string" where
  "normalize_username u =
     (if u = [] then []
      else sub_trailing_digits (filter (\<lambda>c. \<not> is_separator c) (lower u)))"

definition normalize_name :: "string \<Rightarrow> string" where
  "normalize_name name =
     (if name = [] then []
      else join_blank (split_ws (filter (\<lambda>c. is_word c \<or> is_space c) (lower name))))"

text \<open>
  \<^verbatim>\<open>_get_bio_hash\<close>; \<open>md5_hex\<close> stands for \<^verbatim>\<open>hashlib.md5(s.encode()).hexdigest()\<close>.
\<close>

definition get_bio_hash :: "(string \<Rightarrow> string) \<Rightarrow> string \<Rightarrow> string" where
  "get_bio_hash md5_hex biography_text =
     take 8 (md5_hex (join_blank (split_ws (filter (\<lambda>c. is_word c \<or> is_space c)
        (sub_url_mention_hashtag (lower biography_text))))))"

subsection \<open>Blocking and consolidation: \<^verbatim>\<open>find_cross_platform_accounts\<close>\<close>

text \<open>\<^verbatim>\<open>a or b or ''\<close> on values that are absent (\<^verbatim>\<open>None\<close>) or strings.\<close>

definition py_or :: "string option \<Rightarrow> string option \<Rightarrow> string" where
  "py_or a b =
     (case a of
        Some x \<Rightarrow> if x \<noteq> [] then x else (case b of Some y \<Rightarrow> y | None \<Rightarrow> [])
      | None \<Rightarrow> (case b of Some y \<Rightarrow> y | None \<Rightarrow> []))"

text \<open>\<^verbatim>\<open>groups[key].append(v)\<close> on a \<^verbatim>\<open>defaultdict(list)\<close>, which keeps insertion order.\<close>

fun group_append :: "'k \<Rightarrow> 'v \<Rightarrow> ('k \<times> 'v list) list \<Rightarrow> ('k \<times> 'v list) list" where
  "group_append k v [] = [(k, [v])]"
| "group_append k v ((k', vs) # rest) =
     (if k = k' then (k', vs @ [v]) # rest else (k', vs) # group_append k v rest)"

record cp_user =
  user_id :: string
  cu_platforms :: "string list"
  cu_profiles :: "(string \<times> profile_data) list"
  match_confidence :: real
  cu_match_type :: string

record cp_result =
  total_matches :: nat
  matches :: "cp_match list"
  cross_platform_users :: "cp_user list"

text \<open>
  \<^verbatim>\<open>f"{p[0]}:{p[1]['profile']['username']}"\<close>: subscripting raises \<^verbatim>\<open>KeyError\<close> when the key
  \<^verbatim>\<open>profile\<close> or the key \<^verbatim>\<open>username\<close> is absent.
\<close>

definition member_key :: "string \<times> profile_data \<Rightarrow> py_error + string" where
  "member_key p =
     (case pd_profile (snd p) of
        None \<Rightarrow> Inl KeyError
      | Some pr \<Rightarrow> (case username pr of
                     None \<Rightarrow> Inl KeyError
                   | Some u \<Rightarrow> Inr (fst p @ '':'' @ u)))"

text \<open>A list comprehension over a function that may raise: the first exception ends it.\<close>

fun map_raising :: "('a \<Rightarrow> py_error + 'b) \<Rightarrow> 'a list \<Rightarrow> py_error + 'b list" where
  "map_raising f [] = Inr []"
| "map_raising f (x # xs) =
     (case f x of
        Inl e \<Rightarrow> Inl e
      | Inr y \<Rightarrow> (case map_raising f xs of Inl e \<Rightarrow> Inl e | Inr ys \<Rightarrow> Inr (y # ys)))"

definition profile_key :: "(string \<times> profile_data) list \<Rightarrow> py_error + string list" where
  "profile_key ps = (case map_raising member_key ps of Inl e \<Rightarrow> Inl e | Inr ks \<Rightarrow> Inr (sort ks))"

text \<open>
  \<^verbatim>\<open>_consolidate_matches\<close>. \<open>tuple_digest\<close> stands for
  \<^verbatim>\<open>hashlib.md5(str(profile_key).encode()).hexdigest()\<close>.
\<close>

fun consolidate_loop :: "(string list \<Rightarrow> string) \<Rightarrow> cp_match list \<Rightarrow> cp_user list \<Rightarrow>
    string list set \<Rightarrow> py_error + cp_user list" where
  "consolidate_loop tuple_digest [] consolidated processed_profiles = Inr consolidated"
| "consolidate_loop tuple_digest (m # ms) consolidated processed_profiles =
     (case profile_key (profiles m) of
        Inl e \<Rightarrow> Inl e
      | Inr k \<Rightarrow>
          if k \<notin> processed_profiles
          then consolidate_loop tuple_digest ms
                 (consolidated @ [\<lparr> user_id = take 8 (tuple_digest k),
                                     cu_platforms = map fst (profiles m),
                                     cu_profiles = profiles m,
                                     match_confidence = confidence m,
                                     cu_match_type = match_type m \<rparr>])
                 (insert k processed_profiles)
          else consolidate_loop tuple_digest ms consolidated processed_profiles)"

definition consolidate_matches :: "(string list \<Rightarrow> string) \<Rightarrow> cp_match list \<Rightarrow>
    py_error + cp_user list" where
  "consolidate_matches tuple_digest ms = consolidate_loop tuple_digest ms [] {}"

text \<open>The three dictionaries of groups, filled by one pass over the profiles.\<close>

record groups =
  username_groups :: "(string \<times> (string \<times> profile_data) list) list"
  name_groups :: "(string \<times> (string \<times> profile_data) list) list"
  bio_groups :: "(string \<times> (string \<times> profile_data) list) list"

definition empty_profile :: profile where
  "empty_profile = \<lparr> username = None, display_name = None, full_name = None,
     channel_name = None, biography = None, bio = None, description = None \<rparr>"

definition group_profile :: "(string \<Rightarrow> string) \<Rightarrow> groups \<Rightarrow> profile_data \<Rightarrow> groups" where
  "group_profile md5_hex g profile_data =
     (let platform = (case platform profile_data of None \<Rightarrow> [] | Some p \<Rightarrow> p);
          profile = (case pd_profile profile_data of None \<Rightarrow> empty_profile | Some p \<Rightarrow> p);
          username = lower (case username profile of None \<Rightarrow> [] | Some u \<Rightarrow> u);
          display_name = lower (py_or (display_name profile) (full_name profile));
          bio = lower (py_or (biography profile) (description profile));
          username_key = normalize_username username;
          g1 = (if username_key \<noteq> []
                then g\<lparr>username_groups :=
                       group_append username_key (platform, profile_data) (username_groups g)\<rparr>
                else g);
          g2 = (if display_name \<noteq> []
                then g1\<lparr>name_groups :=
                       group_append (normalize_name display_name) (platform, profile_data)
                         (name_groups g1)\<rparr>
                else g1)
      in if bio \<noteq> [] \<and> length bio > 20
         then g2\<lparr>bio_groups :=
                group_append (get_bio_hash md5_hex bio) (platform, profile_data) (bio_groups g2)\<rparr>
         else g2)"

definition group_profiles :: "(string \<Rightarrow> string) \<Rightarrow> profile_data list \<Rightarrow> groups" where
  "group_profiles md5_hex profiles_data =
     foldl (group_profile md5_hex)
       \<lparr> username_groups = [], name_groups = [], bio_groups = [] \<rparr> profiles_data"

definition matches_of :: "string \<Rightarrow> real \<Rightarrow> (string \<times> (string \<times> profile_data) list) list \<Rightarrow>
    cp_match list" where
  "matches_of mtype conf gs =
     map (\<lambda>(k, ps). \<lparr> match_type = mtype, confidence = conf, profiles = ps,
                       match_identifier = k \<rparr>)
       (filter (\<lambda>(k, ps). length ps > 1) gs)"

definition find_matches :: "(string \<Rightarrow> string) \<Rightarrow> profile_data list \<Rightarrow> cp_match list" where
  "find_matches md5_hex profiles_data =
     (let g = group_profiles md5_hex profiles_data
      in matches_of ''username'' (9 / 10) (username_groups g)
         @ matches_of ''display_name'' (7 / 10) (name_groups g)
         @ matches_of ''biography'' (8 / 10) (bio_groups g))"

definition find_cross_platform_accounts :: "(string \<Rightarrow> string) \<Rightarrow> (string list \<Rightarrow> string) \<Rightarrow>
    profile_data list \<Rightarrow> py_error + cp_result" where
  "find_cross_platform_accounts md5_hex tuple_digest profiles_data =
     (let ms = find_matches md5_hex profiles_data
      in case consolidate_matches tuple_digest ms of
           Inl e \<Rightarrow> Inl e
         | Inr cs \<Rightarrow> Inr \<lparr> total_matches = length ms, matches = ms,
                           cross_platform_users = cs \<rparr>)"

subsection \<open>Concrete inputs and auxiliary notions for the statements\<close>

text \<open>Profiles used below.\<close>

definition mk_profile :: "string \<Rightarrow> string \<Rightarrow> string \<Rightarrow> profile_data" where
  "mk_profile plat uname dname =
     \<lparr> platform = Some plat,
       pd_profile = Some \<lparr> username = Some uname, display_name = Some dname,
                           full_name = None, channel_name = None, biography = None,
                           bio = None, description = None \<rparr>,
       posts = [] \<rparr>"

definition punct_instagram :: profile_data where
  "punct_instagram = mk_profile ''instagram'' ''alice'' ''!!!''"

definition punct_twitter :: profile_data where
  "punct_twitter = mk_profile ''twitter'' ''bob'' ''???''"

definition jane_instagram :: profile_data where
  "jane_instagram = mk_profile ''instagram'' ''jane'' ''Jane D''"

definition jane_twitter :: profile_data where
  "jane_twitter = mk_profile ''twitter'' ''jane'' ''JD''"

definition jd_youtube :: profile_data where
  "jd_youtube = mk_profile ''youtube'' ''other'' ''jd''"

text \<open>
  Stand-ins for the two digests, to have closed terms to evaluate; the statements that
  use them do not depend on the digest.
\<close>

definition toy_md5_hex :: "string \<Rightarrow> string" where
  "toy_md5_hex s = s"

definition toy_tuple_digest :: "string list \<Rightarrow> string" where
  "toy_tuple_digest k = concat k"

definition jane_profiles :: "profile_data list" where
  "jane_profiles = [jane_instagram, jane_twitter, jd_youtube]"

definition jane_users :: "cp_user list" where
  "jane_users =
     [\<lparr> user_id = ''instagra'', cu_platforms = [''instagram'', ''twitter''],
        cu_profiles = [(''instagram'', jane_instagram), (''twitter'', jane_twitter)],
        match_confidence = 9 / 10, cu_match_type = ''username'' \<rparr>,
      \<lparr> user_id = ''twitter:'', cu_platforms = [''twitter'', ''youtube''],
        cu_profiles = [(''twitter'', jane_twitter), (''youtube'', jd_youtube)],
        match_confidence = 7 / 10, cu_match_type = ''display_name'' \<rparr>]"

text \<open>Predicates for the statements about \<^verbatim>\<open>_consolidate_matches\<close>.\<close>

definition built_from :: "cp_match \<Rightarrow> cp_user \<Rightarrow> bool" where
  "built_from m c \<longleftrightarrow> cu_profiles c = profiles m \<and> cu_platforms c = map fst (profiles m)
     \<and> match_confidence c = confidence m \<and> cu_match_type c = match_type m"

definition loop_inv :: "cp_user list \<Rightarrow> string list set \<Rightarrow> bool" where
  "loop_inv acc P \<longleftrightarrow>
     (\<forall>c\<in>set acc. \<exists>k\<in>P. profile_key (cu_profiles c) = Inr k)
     \<and> (\<forall>k\<in>P. \<exists>c\<in>set acc. profile_key (cu_profiles c) = Inr k)
     \<and> distinct (map (\<lambda>c. profile_key (cu_profiles c)) acc)"












subsection \<open>Temporal co-occurrence: \<^verbatim>\<open>_calculate_timing_correlation\<close>\<close>

text \<open>
  A \<^verbatim>\<open>datetime\<close> is an instant in microseconds, an \<open>int\<close>; the timestamps of one run are
  all of one kind (all with an offset, or all without: Python refuses to subtract mixed
  ones). \<^verbatim>\<open>timedelta(hours=h)\<close> is then \<open>h\<close> times 3600000000.

  The module imports \<^verbatim>\<open>from datetime import datetime\<close> only, so the global name
  \<^verbatim>\<open>timedelta\<close> that the two timing functions call is not bound in the file as shipped, and
  evaluating \<^verbatim>\<open>timedelta(hours=2)\<close> raises \<^verbatim>\<open>NameError\<close>. The binding of that name is a
  parameter of the model: \<open>None\<close> is the file as shipped, \<open>Some f\<close> binds the name to \<open>f\<close>.
  The program is the instance \<open>shipped_timedelta\<close>.
\<close>

definition timedelta_hours :: "int \<Rightarrow> int" where
  "timedelta_hours h = h * 3600000000"

definition shipped_timedelta :: "(int \<Rightarrow> int) option" where
  "shipped_timedelta = None"

text \<open>
  The binding that the missing import would give. It is not the program: it only serves
  to state what the loop would return once the name were bound.
\<close>

definition imported_timedelta :: "(int \<Rightarrow> int) option" where
  "imported_timedelta = Some timedelta_hours"

text \<open>The inner loop with its \<^verbatim>\<open>break\<close>: 1 at the first \<^verbatim>\<open>t2\<close> within the window, else 0.\<close>

fun synchronized_with :: "int \<Rightarrow> int \<Rightarrow> int list \<Rightarrow> nat" where
  "synchronized_with time_window t1 [] = 0"
| "synchronized_with time_window t1 (t2 # times2) =
     (if \<bar>t1 - t2\<bar> \<le> time_window then 1 else synchronized_with time_window t1 times2)"

text \<open>The outer loop.\<close>

fun count_synchronized :: "int \<Rightarrow> int list \<Rightarrow> int list \<Rightarrow> nat" where
  "count_synchronized time_window [] times2 = 0"
| "count_synchronized time_window (t1 # times1) times2 =
     synchronized_with time_window t1 times2 + count_synchronized time_window times1 times2"

definition calculate_timing_correlation :: "(int \<Rightarrow> int) option \<Rightarrow> int list \<Rightarrow> int list \<Rightarrow>
    py_error + real" where
  "calculate_timing_correlation timedelta times1 times2 =
     (if times1 = [] \<or> times2 = [] then Inr 0
      else case timedelta of
        None \<Rightarrow> Inl NameError
      | Some td \<Rightarrow>
          (let time_window = td 2;
               synchronized_count = count_synchronized time_window times1 times2;
               max_possible = min (length times1) (length times2)
           in Inr (if max_possible > 0 then real synchronized_count / real max_possible
                   else 0)))"

text \<open>\<^verbatim>\<open>_find_synchronized_posts\<close>; the two ISO strings are kept as the instants.\<close>

definition find_synchronized_posts :: "(int \<Rightarrow> int) option \<Rightarrow> int list \<Rightarrow> int list \<Rightarrow>
    py_error + sync_post list" where
  "find_synchronized_posts timedelta times1 times2 =
     (case timedelta of
        None \<Rightarrow> Inl NameError
      | Some td \<Rightarrow>
          Inr (concat (map (\<lambda>(i, t1).
                 concat (map (\<lambda>(j, t2).
                   if \<bar>t1 - t2\<bar> \<le> td 2
                   then [\<lparr> time1 = t1, time2 = t2,
                           time_diff_minutes = real_of_int \<bar>t1 - t2\<bar> / 60000000,
                           post1_index = i, post2_index = j \<rparr>]
                   else []) (enumerate 0 times2))) (enumerate 0 times1))))"

text \<open>\<^verbatim>\<open>s.replace('Z', '+00:00')\<close>.\<close>

definition replace_Z :: "string \<Rightarrow> string" where
  "replace_Z s = concat (map (\<lambda>c. if c = CHR ''Z'' then ''+00:00'' else [c]) s)"

text \<open>
  The collection of post times in \<^verbatim>\<open>analyze_timing_correlation\<close>. \<open>fromisoformat\<close> stands
  for \<^verbatim>\<open>datetime.fromisoformat\<close>, \<open>None\<close> when it raises; the bare \<^verbatim>\<open>except: continue\<close> skips
  the post.
\<close>

definition parse_date :: "(string \<Rightarrow> int option) \<Rightarrow> post \<Rightarrow> int option" where
  "parse_date fromisoformat p =
     (case date p of
        None \<Rightarrow> None
      | Some date_str \<Rightarrow> if date_str = [] then None else fromisoformat (replace_Z date_str))"

definition parse_post_times :: "(string \<Rightarrow> int option) \<Rightarrow> post list \<Rightarrow> int list" where
  "parse_post_times fromisoformat ps =
     concat (map (\<lambda>p. case parse_date fromisoformat p of None \<Rightarrow> [] | Some dt \<Rightarrow> [dt]) ps)"

text \<open>\<^verbatim>\<open>d[k] = v\<close> on a dictionary that keeps insertion order.\<close>

fun dict_set :: "'k \<Rightarrow> 'v \<Rightarrow> ('k \<times> 'v) list \<Rightarrow> ('k \<times> 'v) list" where
  "dict_set k v [] = [(k, v)]"
| "dict_set k v ((k', v') # rest) =
     (if k = k' then (k', v) # rest else (k', v') # dict_set k v rest)"

definition platform_timings :: "(string \<Rightarrow> int option) \<Rightarrow> profile_data list \<Rightarrow>
    (string \<times> int list) list" where
  "platform_timings fromisoformat profiles_data =
     foldl (\<lambda>timings profile_data.
              let post_times = parse_post_times fromisoformat (posts profile_data)
              in if post_times \<noteq> []
                 then dict_set (case platform profile_data of None \<Rightarrow> [] | Some p \<Rightarrow> p)
                        post_times timings
                 else timings)
       [] profiles_data"

text \<open>The pairs \<^verbatim>\<open>(platforms[i], platforms[j])\<close> with \<^verbatim>\<open>i < j\<close>, in the order of the loops.\<close>

fun ordered_pairs :: "'a list \<Rightarrow> ('a \<times> 'a) list" where
  "ordered_pairs [] = []"
| "ordered_pairs (x # xs) = map (\<lambda>y. (x, y)) xs @ ordered_pairs xs"

definition timing_pair :: "(int \<Rightarrow> int) option \<Rightarrow> (string \<times> int list) \<times> (string \<times> int list) \<Rightarrow>
    py_error + timing_match list" where
  "timing_pair timedelta pr =
     (case pr of ((name1, times1), (name2, times2)) \<Rightarrow>
        (case calculate_timing_correlation timedelta times1 times2 of
           Inl e \<Rightarrow> Inl e
         | Inr correlation \<Rightarrow>
             if correlation > 5 / 10
             then (case find_synchronized_posts timedelta times1 times2 of
                     Inl e \<Rightarrow> Inl e
                   | Inr sync \<Rightarrow> Inr [\<lparr> platform1 = name1, platform2 = name2,
                                        timing_correlation_score = correlation,
                                        synchronized_posts = sync \<rparr>])
             else Inr []))"

definition analyze_timing_correlation :: "(int \<Rightarrow> int) option \<Rightarrow> (string \<Rightarrow> int option) \<Rightarrow>
    profile_data list \<Rightarrow> py_error + timing_match list" where
  "analyze_timing_correlation timedelta fromisoformat profiles_data =
     (case map_raising (timing_pair timedelta)
             (ordered_pairs (platform_timings fromisoformat profiles_data)) of
        Inl e \<Rightarrow> Inl e
      | Inr found \<Rightarrow> Inr (concat found))"

text \<open>
  The temporal score in the words of the specification: the number of pairs of posts,
  one of each profile, at most two hours apart, over the smaller number of posts.
\<close>

definition spec_temporal_score :: "int list \<Rightarrow> int list \<Rightarrow> real" where
  "spec_temporal_score times1 times2 =
     real (length (filter (\<lambda>(t1, t2). \<bar>t1 - t2\<bar> \<le> timedelta_hours 2)
                     (List.product times1 times2)))
       / real (min (length times1) (length times2))"

subsection \<open>Behavioural correlation and writing style\<close>

text \<open>
  The dictionary of \<^verbatim>\<open>_extract_behavioral_features\<close>: it is empty or holds all seven keys;
  the correlation tests each key it reads.
\<close>

record behavior =
  posting_frequency :: "nat option"
  avg_content_length :: "real option"
  avg_engagement :: "real option"
  most_active_hour :: "int option"
  most_active_day :: "int option"
  hour_distribution :: "(int \<times> nat) list option"
  day_distribution :: "(int \<times> nat) list option"

definition behavior_empty :: "behavior \<Rightarrow> bool" where
  "behavior_empty b \<longleftrightarrow> posting_frequency b = None \<and> avg_content_length b = None
     \<and> avg_engagement b = None \<and> most_active_hour b = None \<and> most_active_day b = None
     \<and> hour_distribution b = None \<and> day_distribution b = None"

definition hour_correlations :: "behavior \<Rightarrow> behavior \<Rightarrow> real list" where
  "hour_correlations behavior1 behavior2 =
     (case (most_active_hour behavior1, most_active_hour behavior2) of
        (Some h1, Some h2) \<Rightarrow> [1 - real_of_int \<bar>h1 - h2\<bar> / 12]
      | _ \<Rightarrow> [])"

definition day_correlations :: "behavior \<Rightarrow> behavior \<Rightarrow> real list" where
  "day_correlations behavior1 behavior2 =
     (case (most_active_day behavior1, most_active_day behavior2) of
        (Some d1, Some d2) \<Rightarrow> [max 0 (1 - real_of_int \<bar>d1 - d2\<bar> / (35 / 10))]
      | _ \<Rightarrow> [])"

definition length_correlations :: "behavior \<Rightarrow> behavior \<Rightarrow> real list" where
  "length_correlations behavior1 behavior2 =
     (case (avg_content_length behavior1, avg_content_length behavior2) of
        (Some len1, Some len2) \<Rightarrow> [1 - \<bar>len1 - len2\<bar> / max (max len1 len2) 1]
      | _ \<Rightarrow> [])"

text \<open>\<^verbatim>\<open>np.mean\<close> of a list that is not empty.\<close>

definition mean :: "real list \<Rightarrow> real" where
  "mean xs = sum_list xs / real (length xs)"

definition calculate_behavioral_correlation :: "behavior \<Rightarrow> behavior \<Rightarrow> real" where
  "calculate_behavioral_correlation behavior1 behavior2 =
     (if behavior_empty behavior1 \<or> behavior_empty behavior2 then 0
      else (let correlations = hour_correlations behavior1 behavior2
                  @ day_correlations behavior1 behavior2
                  @ length_correlations behavior1 behavior2
            in if correlations \<noteq> [] then mean correlations else 0))"


text \<open>Two feature dictionaries as the extraction produces them, used below.\<close>

definition midnight_monday_silent :: behavior where
  "midnight_monday_silent = \<lparr> posting_frequency = Some 1, avg_content_length = Some 0,
     avg_engagement = Some 0, most_active_hour = Some 0, most_active_day = Some 0,
     hour_distribution = Some [(0, 1)], day_distribution = Some [(0, 1)] \<rparr>"

definition late_sunday_wordy :: behavior where
  "late_sunday_wordy = \<lparr> posting_frequency = Some 1, avg_content_length = Some 100,
     avg_engagement = Some 0, most_active_hour = Some 23, most_active_day = Some 6,
     hour_distribution = Some [(23, 1)], day_distribution = Some [(6, 1)] \<rparr>"

subsection \<open>Username similarity: \<^verbatim>\<open>_calculate_username_similarity\<close>\<close>











subsection \<open>Inputs for the timing analysis, and the swap of the two sides\<close>

text \<open>
  The values of \<^verbatim>\<open>datetime.fromisoformat\<close> on the date strings used below, in microseconds
  from 2024-01-01T00:00:00+00:00; it raises on every other string used below.
\<close>

definition iso_table :: "string \<Rightarrow> int option" where
  "iso_table = map_of
     [(''2024-01-01T00:00:00+00:00'', 0),
      (''2024-01-01T01:00:00+00:00'', 3600000000),
      (''2024-01-01T02:00:00+00:00'', 7200000000),
      (''2024-01-05T04:00:00+00:00'', 360000000000),
      (''2024-01-09T08:00:00+00:00'', 720000000000)]"

definition dated_post :: "string \<Rightarrow> post" where
  "dated_post d = \<lparr> caption = None, content = None, date = Some d \<rparr>"

definition burst_instagram :: profile_data where
  "burst_instagram = \<lparr> platform = Some ''instagram'', pd_profile = None,
     posts = [dated_post ''2024-01-01T00:00:00Z'', dated_post ''yesterday'',
              dated_post ''2024-01-01T01:00:00Z'', dated_post ''2024-01-01T02:00:00Z''] \<rparr>"

definition sparse_twitter :: profile_data where
  "sparse_twitter = \<lparr> platform = Some ''twitter'', pd_profile = None,
     posts = [dated_post ''2024-01-01T00:00:00Z'', dated_post ''2024-01-05T04:00:00Z'',
              dated_post ''2024-01-09T08:00:00Z''] \<rparr>"


subsection \<open>Variation generators\<close>

text \<open>The decimal numeral that an f-string writes for a natural number.\<close>

fun str_of_nat :: "nat \<Rightarrow> string" where
  "str_of_nat n =
     (if n < 10 then [ascii_digits ! n]
      else str_of_nat (n div 10) @ [ascii_digits ! (n mod 10)])"

declare str_of_nat.simps [simp del]

text \<open>\<^verbatim>\<open>s.replace(c, sub)\<close> for a pattern \<open>c\<close> of one character.\<close>

definition replace_char :: "char \<Rightarrow> string \<Rightarrow> string \<Rightarrow> string" where
  "replace_char c sub s = concat (map (\<lambda>x. if x = c then sub else [x]) s)"

text \<open>
  \<^verbatim>\<open>CrossPlatformCorrelator._generate_username_variations\<close>. The list is built in the
  order of the code; \<^verbatim>\<open>list(set(variations))\<close> keeps one copy of each string, in an order
  that Python does not specify, for which the order of \<open>remdups\<close> stands.
\<close>

definition numbered_variations :: "string \<Rightarrow> string list" where
  "numbered_variations uname =
     concat (map (\<lambda>i. [uname @ str_of_nat i,
                        uname @ ''_'' @ str_of_nat i,
                        uname @ ''.'' @ str_of_nat i,
                        str_of_nat i @ uname]) [1..<100])"

definition suffix_variations :: "string \<Rightarrow> string list" where
  "suffix_variations uname =
     concat (map (\<lambda>suffix. [uname @ ''_'' @ suffix,
                             uname @ ''.'' @ suffix,
                             uname @ suffix])
       [''official'', ''real'', ''original'', ''new'', ''backup'', ''2024'', ''2023''])"

definition separator_variations :: "string \<Rightarrow> string list" where
  "separator_variations uname =
     [replace_char (CHR ''_'') ''.'' uname,
      replace_char (CHR ''.'') ''_'' uname,
      ''_'' @ uname, uname @ ''_'', ''.'' @ uname, uname @ ''.'']"

definition correlator_username_variations :: "string \<Rightarrow> string list" where
  "correlator_username_variations uname =
     remdups (numbered_variations uname @ suffix_variations uname
              @ separator_variations uname)"

text \<open>
  \<^verbatim>\<open>AdvancedDiscovery.generate_username_variations\<close>; \<open>current_year\<close> stands for
  \<^verbatim>\<open>datetime.now().year\<close>. \<^verbatim>\<open>first[0]\<close> is read only behind the test that both names are
  not empty.
\<close>

definition capitalize :: "string \<Rightarrow> string" where
  "capitalize s = (case s of [] \<Rightarrow> [] | c # cs \<Rightarrow> upper_char c # lower cs)"

definition generate_name_variations :: "string \<Rightarrow> string \<Rightarrow> string list" where
  "generate_name_variations first_name last_name =
     (let first = lower first_name; last = lower last_name
      in [first @ ''.'' @ last, first @ ''_'' @ last, first @ last,
          last @ ''.'' @ first, last @ ''_'' @ first, last @ first,
          take 1 first @ ''.'' @ last, first @ ''.'' @ take 1 last,
          take 1 first @ last, first @ take 1 last]
         @ concat (map (\<lambda>i. [first @ ''.'' @ last @ str_of_nat i,
                              first @ ''_'' @ last @ str_of_nat i,
                              first @ last @ str_of_nat i,
                              first @ ''.'' @ last @ ''_'' @ str_of_nat i,
                              first @ ''_'' @ last @ ''_'' @ str_of_nat i]) [1..<20]))"

definition char_subs :: "(char \<times> string list) list" where
  "char_subs = [(CHR ''a'', [''@'', ''4'']), (CHR ''e'', [''3'']), (CHR ''i'', [''1'', ''!'']),
                (CHR ''o'', [''0'']), (CHR ''s'', [''5'', ''$'']), (CHR ''t'', [''7''])]"

definition substitution_variations :: "string \<Rightarrow> string list" where
  "substitution_variations base_username =
     concat (map (\<lambda>(c, subs).
               concat (map (\<lambda>sub. if c \<in> set (lower base_username)
                                   then [replace_char c sub (lower base_username)] else [])
                         subs))
       char_subs)"

definition generate_username_variations :: "nat \<Rightarrow> string \<Rightarrow> string option \<Rightarrow>
    string option \<Rightarrow> string list" where
  "generate_username_variations current_year base_username first_name last_name =
     take 100 (sort (remdups (
       [base_username, lower base_username, upper base_username, capitalize base_username]
       @ concat (map (\<lambda>i. [base_username @ str_of_nat i,
                            base_username @ ''_'' @ str_of_nat i,
                            base_username @ ''.'' @ str_of_nat i,
                            base_username @ ''-'' @ str_of_nat i]) [1..<100])
       @ concat (map (\<lambda>year. [base_username @ str_of_nat year,
                               base_username @ ''_'' @ str_of_nat year,
                               str_of_nat year @ base_username,
                               str_of_nat year @ ''_'' @ base_username])
                   [1990..<current_year + 1])
       @ substitution_variations base_username
       @ (case (first_name, last_name) of
            (Some f, Some l) \<Rightarrow> if f \<noteq> [] \<and> l \<noteq> [] then generate_name_variations f l else []
          | _ \<Rightarrow> []))))"

subsection \<open>Presence on the platforms: \<^verbatim>\<open>correlate_accounts\<close>\<close>

text \<open>
  What \<^verbatim>\<open>_load_platform_data\<close> hands back when it returns: a value that is false in a
  test (\<^verbatim>\<open>None\<close>, an empty object), a JSON value that is true in a test but is no object
  (on which \<^verbatim>\<open>.get\<close> raises \<^verbatim>\<open>AttributeError\<close>), or a non-empty object. Of such an object
  the entry \<^verbatim>\<open>profile\<close> is absent, or is a value that is no object (\<^verbatim>\<open>null\<close>, a string, a
  number, a list), or is an object; the entries of a profile object that are read are
  strings or absent. The loader itself is a parameter \<open>load platform username\<close>, with
  \<open>Inl e\<close> when it raises (it reads the file system outside its own \<^verbatim>\<open>try\<close>).
\<close>

datatype profile_value = Not_an_object | Object profile

datatype platform_json = Json_falsy | Json_other | Json_object "profile_value option"

text \<open>
  An entry of \<^verbatim>\<open>correlations\<close>; the key \<^verbatim>\<open>profile\<close> is set only when the platform is found,
  to whatever \<^verbatim>\<open>platform_data.get('profile', {})\<close> gives.
\<close>

record presence =
  found :: bool
  pr_profile :: "profile_value option"
  pr_confidence :: nat

definition not_found :: presence where
  "not_found = \<lparr> found = False, pr_profile = None, pr_confidence = 0 \<rparr>"

text \<open>The body of the \<^verbatim>\<open>try\<close> for one platform.\<close>

definition try_platform :: "(string \<Rightarrow> string \<Rightarrow> py_error + platform_json) \<Rightarrow> string \<Rightarrow>
    string \<Rightarrow> py_error + presence" where
  "try_platform load plat uname =
     (case load plat uname of
        Inl e \<Rightarrow> Inl e
      | Inr Json_falsy \<Rightarrow> Inr not_found
      | Inr Json_other \<Rightarrow> Inl AttributeError
      | Inr (Json_object entry) \<Rightarrow>
          Inr \<lparr> found = True,
                pr_profile = Some (case entry of None \<Rightarrow> Object empty_profile | Some v \<Rightarrow> v),
                pr_confidence = 100 \<rparr>)"

text \<open>The \<^verbatim>\<open>try\<close> with its \<^verbatim>\<open>except Exception\<close>.\<close>

definition check_platform :: "(string \<Rightarrow> string \<Rightarrow> py_error + platform_json) \<Rightarrow> string \<Rightarrow>
    string \<Rightarrow> presence" where
  "check_platform load plat uname =
     (case try_platform load plat uname of Inl e \<Rightarrow> not_found | Inr entry \<Rightarrow> entry)"

definition platforms :: "string list" where
  "platforms = [''instagram'', ''twitter'', ''youtube'', ''tiktok'', ''linkedin'']"

text \<open>\<^verbatim>\<open>a or b or c\<close> on three entries that are absent or strings.\<close>

definition py_or3 :: "string option \<Rightarrow> string option \<Rightarrow> string option \<Rightarrow> string" where
  "py_or3 a b c = (if py_or a b \<noteq> [] then py_or a b else (case c of Some z \<Rightarrow> z | None \<Rightarrow> []))"

text \<open>
  \<^verbatim>\<open>_calculate_text_similarity\<close>; \<open>sequence_ratio a b\<close> stands for
  \<^verbatim>\<open>SequenceMatcher(None, a, b).ratio()\<close>.
\<close>

definition calculate_text_similarity :: "(string \<Rightarrow> string \<Rightarrow> real) \<Rightarrow> string list \<Rightarrow> real" where
  "calculate_text_similarity sequence_ratio texts =
     (if length texts < 2 then 1
      else (let similarities = map (\<lambda>(a, b). sequence_ratio (lower a) (lower b))
                                 (ordered_pairs texts)
            in if similarities \<noteq> [] then sum_list similarities / real (length similarities)
               else 0))"

definition calculate_identity_confidence :: "string list \<Rightarrow> string list \<Rightarrow> nat \<Rightarrow> int" where
  "calculate_identity_confidence common_elements discrepancies platform_count =
     max 0 (min 100 (30 + min 40 (int platform_count * 10)
                     + int (length common_elements) * 10
                     - int (length discrepancies) * 15))"

record correlation_analysis =
  correlation_strength :: string
  common_elements :: "string list"
  discrepancies :: "string list"
  identity_confidence :: int
  platforms_found :: "string list option"

text \<open>\<^verbatim>\<open>', '.join(names)\<close>.\<close>

fun join_comma :: "string list \<Rightarrow> string" where
  "join_comma [] = []"
| "join_comma [w] = w"
| "join_comma (w # ws) = w @ '', '' @ join_comma ws"

text \<open>
  \<^verbatim>\<open>data['profile']\<close> in the dictionary comprehension over the found entries, then the call
  \<^verbatim>\<open>p.get\<close> on each stored value in the comprehension of the names: the subscript raises
  \<^verbatim>\<open>KeyError\<close> on an entry without the key, the call raises \<^verbatim>\<open>AttributeError\<close> on a value that
  is no object.
\<close>

definition stored_profile :: "string \<times> presence \<Rightarrow> py_error + profile_value" where
  "stored_profile entry = (case pr_profile (snd entry) of None \<Rightarrow> Inl KeyError | Some v \<Rightarrow> Inr v)"

definition as_object :: "profile_value \<Rightarrow> py_error + profile" where
  "as_object v = (case v of Not_an_object \<Rightarrow> Inl AttributeError | Object q \<Rightarrow> Inr q)"

text \<open>
  The part of \<^verbatim>\<open>_analyze_correlations\<close> that runs once the profiles are read.
  \<open>iterate_set names\<close> stands for the order in which Python iterates \<^verbatim>\<open>set(names)\<close>, which
  depends on the hash seed; nothing is assumed about it.
\<close>

definition compare_profiles :: "(string \<Rightarrow> string \<Rightarrow> real) \<Rightarrow> (string list \<Rightarrow> string list) \<Rightarrow>
    string list \<Rightarrow> profile list \<Rightarrow> correlation_analysis" where
  "compare_profiles sequence_ratio iterate_set found_platforms profs =
     (let names = filter (\<lambda>n. n \<noteq> [])
                    (map (\<lambda>q. py_or3 (full_name q) (display_name q) (channel_name q)) profs);
          name_common = (if length (remdups names) = 1 \<and> names \<noteq> []
                         then [''Consistent name: '' @ hd names] else []);
          name_discrepancies = (if \<not> (length (remdups names) = 1 \<and> names \<noteq> [])
                                   \<and> length (remdups names) > 1
                                then [''Different names: '' @ join_comma (iterate_set names)]
                                else []);
          bios = filter (\<lambda>b. b \<noteq> [])
                   (map (\<lambda>q. py_or3 (biography q) (bio q) (description q)) profs);
          bio_similarity = calculate_text_similarity sequence_ratio bios;
          bio_common = (if bios \<noteq> [] \<and> bio_similarity > 7 / 10
                        then [''Similar bio/description content''] else []);
          bio_discrepancies = (if bios \<noteq> [] \<and> \<not> bio_similarity > 7 / 10
                                  \<and> bio_similarity < 3 / 10
                               then [''Very different bio/description content''] else []);
          common = name_common @ bio_common;
          differing = name_discrepancies @ bio_discrepancies;
          confidence_value = calculate_identity_confidence common differing
                               (length found_platforms)
      in \<lparr> correlation_strength =
             (if confidence_value > 80 then ''High''
              else if confidence_value > 60 then ''Medium'' else ''Low''),
           common_elements = common, discrepancies = differing,
           identity_confidence = confidence_value,
           platforms_found = Some found_platforms \<rparr>)"

text \<open>\<^verbatim>\<open>_analyze_correlations\<close>, which \<^verbatim>\<open>correlate_accounts\<close> calls outside its \<^verbatim>\<open>try\<close>.\<close>

definition analyze_correlations :: "(string \<Rightarrow> string \<Rightarrow> real) \<Rightarrow> (string list \<Rightarrow> string list) \<Rightarrow>
    (string \<times> presence) list \<Rightarrow> py_error + correlation_analysis" where
  "analyze_correlations sequence_ratio iterate_set correlations =
     (let found_platforms = map fst (filter (\<lambda>(p, d). found d) correlations)
      in if length found_platforms < 2
         then Inr \<lparr> correlation_strength = ''Low'', common_elements = [], discrepancies = [],
                    identity_confidence = 50, platforms_found = None \<rparr>
         else (case map_raising stored_profile (filter (\<lambda>(p, d). found d) correlations) of
                 Inl e \<Rightarrow> Inl e
               | Inr stored \<Rightarrow>
                   (case map_raising as_object stored of
                      Inl e \<Rightarrow> Inl e
                    | Inr profs \<Rightarrow>
                        Inr (compare_profiles sequence_ratio iterate_set found_platforms profs))))"

definition calculate_footprint_score :: "(string \<times> presence) list \<Rightarrow> int" where
  "calculate_footprint_score correlations =
     (let found_count = length (filter (\<lambda>(p, d). found d) correlations);
          total_platforms = length platforms;
          presence_score = real found_count / real total_platforms * 60;
          confidence_bonus =
            real (sum_list (map (\<lambda>(p, d). pr_confidence d)
                              (filter (\<lambda>(p, d). found d) correlations)))
              / real (max 1 found_count) * (4 / 10)
      in min 100 \<lfloor>presence_score + confidence_bonus\<rfloor>)"

record correlation_result =
  cr_username :: string
  platform_presence :: "(string \<times> presence) list"
  cr_analysis :: correlation_analysis
  total_platforms :: nat
  digital_footprint_score :: int

text \<open>The loop over the platforms.\<close>

definition check_platforms :: "(string \<Rightarrow> string \<Rightarrow> py_error + platform_json) \<Rightarrow> string \<Rightarrow>
    (string \<times> presence) list" where
  "check_platforms load uname =
     foldl (\<lambda>cs plat. dict_set plat (check_platform load plat uname) cs) [] platforms"

definition correlate_accounts :: "(string \<Rightarrow> string \<Rightarrow> py_error + platform_json) \<Rightarrow>
    (string \<Rightarrow> string \<Rightarrow> real) \<Rightarrow> (string list \<Rightarrow> string list) \<Rightarrow> string \<Rightarrow>
    py_error + correlation_result" where
  "correlate_accounts load sequence_ratio iterate_set uname =
     (let correlations = check_platforms load uname
      in case analyze_correlations sequence_ratio iterate_set correlations of
           Inl e \<Rightarrow> Inl e
         | Inr analysis \<Rightarrow>
             Inr \<lparr> cr_username = uname,
                   platform_presence = correlations,
                   cr_analysis = analysis,
                   total_platforms = length (filter (\<lambda>(p, d). found d) correlations),
                   digital_footprint_score = calculate_footprint_score correlations \<rparr>)"

text \<open>
  Whether a loader outcome makes the platform count as found, and whether it is an object
  whose entry \<^verbatim>\<open>profile\<close> is no object.
\<close>

definition loads_profile :: "py_error + platform_json \<Rightarrow> bool" where
  "loads_profile outcome = (case outcome of Inr (Json_object entry) \<Rightarrow> True | _ \<Rightarrow> False)"

definition malformed_profile :: "py_error + platform_json \<Rightarrow> bool" where
  "malformed_profile outcome =
     (case outcome of Inr (Json_object (Some Not_an_object)) \<Rightarrow> True | _ \<Rightarrow> False)"

text \<open>
  A loader for the example below: the Instagram directory cannot be read, the Twitter
  file holds a list, the YouTube and TikTok files hold a profile, nothing is stored for
  LinkedIn.
\<close>

definition sample_load :: "string \<Rightarrow> string \<Rightarrow> py_error + platform_json" where
  "sample_load plat uname =
     (if plat = ''instagram'' then Inl OSError
      else if plat = ''twitter'' then Inr Json_other
      else if plat = ''youtube''
      then Inr (Json_object (Some (Object (empty_profile\<lparr>channel_name := Some uname\<rparr>))))
      else if plat = ''tiktok''
      then Inr (Json_object (Some (Object (empty_profile\<lparr>display_name := Some uname\<rparr>))))
      else Inr Json_falsy)"

text \<open>
  A loader whose Instagram and Twitter files are the object with \<^verbatim>\<open>"profile": null\<close>;
  nothing is stored for the other platforms.
\<close>

definition null_profile_load :: "string \<Rightarrow> string \<Rightarrow> py_error + platform_json" where
  "null_profile_load plat uname =
     (if plat = ''instagram'' \<or> plat = ''twitter'' then Inr (Json_object (Some Not_an_object))
      else Inr Json_falsy)"

text \<open>The order of \<open>remdups\<close>, as one order in which a set may be iterated.\<close>

definition some_set_order :: "string list \<Rightarrow> string list" where
  "some_set_order names = remdups names"

text \<open>A ratio that is constant, for closed terms; no statement depends on it.\<close>

definition constant_ratio :: "string \<Rightarrow> string \<Rightarrow> real" where
  "constant_ratio a b = 1"

section \<open>Theorems\<close>

subsection \<open>Score fusion\<close>



















subsection \<open>Normalisation\<close>

lemmas string_defs = lower_def lower_char_def ascii_upper_def ascii_lower_def ascii_digits_def
  is_digit_def is_word_def is_space_def is_separator_def sub_trailing_digits_def
  strip_trailing_digits_def normalize_username_def normalize_name_def py_or_def

lemma lower_char_idem: "lower_char (lower_char c) = lower_char c"
  by (auto simp: lower_char_def ascii_upper_def ascii_lower_def)

lemma lower_char_newline: "lower_char c = CHR 0x0A \<longleftrightarrow> c = CHR 0x0A"
  by (auto simp: lower_char_def ascii_upper_def ascii_lower_def)

lemma lower_fixed: "\<forall>c\<in>set s. lower_char c = c \<Longrightarrow> lower s = s"
  by (simp add: lower_def map_idI)

lemma split_ws_tokens_all:
  "\<forall>w\<in>set (split_ws s). w \<noteq> [] \<and> (\<forall>c\<in>set w. \<not> is_space c \<and> c \<in> set s)"
proof (induction s)
  case Nil
  then show ?case by simp
next
  case (Cons c cs)
  show ?case
  proof (cases "is_space c")
    case True
    then show ?thesis using Cons by auto
  next
    case False
    note nsp = this
    show ?thesis
    proof (cases "cs = [] \<or> is_space (hd cs)")
      case True
      then have "split_ws (c # cs) = [c] # split_ws cs" using nsp by simp
      then show ?thesis using Cons nsp by auto
    next
      case False
      show ?thesis
      proof (cases "split_ws cs")
        case Nil
        then have "split_ws (c # cs) = [[c]]" using nsp False by simp
        then show ?thesis using nsp by simp
      next
        case (Cons v vs)
        then have "split_ws (c # cs) = (c # v) # vs" using nsp False by simp
        moreover have "\<forall>w\<in>set (v # vs). w \<noteq> [] \<and> (\<forall>c\<in>set w. \<not> is_space c \<and> c \<in> set cs)"
          using Cons.IH Cons by simp
        ultimately show ?thesis using nsp by auto
      qed
    qed
  qed
qed

lemma split_ws_token_append:
  "w \<noteq> [] \<Longrightarrow> \<forall>c\<in>set w. \<not> is_space c \<Longrightarrow> r = [] \<or> is_space (hd r) \<Longrightarrow>
     split_ws (w @ r) = w # split_ws r"
proof (induction w)
  case Nil
  then show ?case by simp
next
  case (Cons c w)
  show ?case
  proof (cases "w = []")
    case True
    with Cons.prems show ?thesis by auto
  next
    case False
    with Cons have "split_ws (w @ r) = w # split_ws r" by simp
    moreover have "\<not> is_space (hd (w @ r))" using False Cons.prems by (cases w) auto
    ultimately show ?thesis using Cons.prems False by simp
  qed
qed

lemma split_ws_blank: "split_ws (CHR '' '' # r) = split_ws r"
  by (simp add: is_space_def)

lemma split_ws_join_blank:
  "\<forall>w\<in>set ws. w \<noteq> [] \<and> (\<forall>c\<in>set w. \<not> is_space c) \<Longrightarrow> split_ws (join_blank ws) = ws"
proof (induction ws rule: join_blank.induct)
  case 1
  then show ?case by simp
next
  case (2 w)
  then show ?case using split_ws_token_append[of w "[]"] by simp
next
  case (3 w v ws)
  have "split_ws (w @ CHR '' '' # join_blank (v # ws))
      = w # split_ws (CHR '' '' # join_blank (v # ws))"
    using 3 by (intro split_ws_token_append) (auto simp: is_space_def)
  also have "\<dots> = w # split_ws (join_blank (v # ws))" by (simp only: split_ws_blank)
  also have "\<dots> = w # v # ws" using 3 by simp
  finally show ?case by simp
qed

lemma set_join_blank: "set (join_blank ws) \<subseteq> \<Union> (set ` set ws) \<union> {CHR '' ''}"
  by (induction ws rule: join_blank.induct) auto

text \<open>The display-name normaliser is idempotent on every string.\<close>

lemma normalize_name_idem: "normalize_name (normalize_name s) = normalize_name s"
proof (cases "s = []")
  case True
  then show ?thesis by (simp add: normalize_name_def)
next
  case False
  define t where "t = filter (\<lambda>c. is_word c \<or> is_space c) (lower s)"
  define ws where "ws = split_ws t"
  define r where "r = join_blank ws"
  have r: "normalize_name s = r" using False by (simp add: normalize_name_def r_def ws_def t_def)
  have tok: "\<forall>w\<in>set ws. w \<noteq> [] \<and> (\<forall>c\<in>set w. \<not> is_space c \<and> c \<in> set t)"
    using split_ws_tokens_all unfolding ws_def by blast
  have t_chars: "\<forall>c\<in>set t. lower_char c = c \<and> (is_word c \<or> is_space c)"
    by (auto simp: t_def lower_def lower_char_idem)
  have r_chars: "\<forall>c\<in>set r. lower_char c = c \<and> (is_word c \<or> is_space c)"
  proof
    fix c assume "c \<in> set r"
    then have "c \<in> \<Union> (set ` set ws) \<union> {CHR '' ''}" using set_join_blank r_def by blast
    then show "lower_char c = c \<and> (is_word c \<or> is_space c)"
    proof
      assume "c \<in> \<Union> (set ` set ws)"
      then show ?thesis using tok t_chars by blast
    next
      assume "c \<in> {CHR '' ''}"
      then show ?thesis by (simp add: lower_char_def ascii_upper_def ascii_lower_def is_space_def)
    qed
  qed
  have "lower r = r" using r_chars by (simp add: lower_fixed)
  moreover have "filter (\<lambda>c. is_word c \<or> is_space c) r = r" using r_chars by simp
  moreover have "split_ws r = ws" unfolding r_def using tok by (intro split_ws_join_blank) blast
  ultimately have "normalize_name r = r"
    by (simp add: normalize_name_def r_def)
  then show ?thesis by (simp add: r)
qed

lemma strip_trailing_digits_idem:
  "strip_trailing_digits (strip_trailing_digits s) = strip_trailing_digits s"
  by (simp add: strip_trailing_digits_def dropWhile_idem)

lemma set_strip_trailing_digits: "set (strip_trailing_digits s) \<subseteq> set s"
  using set_dropWhileD[of _ is_digit "rev s"] by (auto simp: strip_trailing_digits_def)

lemma sub_trailing_digits_no_newline:
  assumes "CHR 0x0A \<notin> set t"
  shows "sub_trailing_digits t = strip_trailing_digits t"
proof -
  have "\<not> (t \<noteq> [] \<and> last t = CHR 0x0A)" using assms last_in_set by metis
  then show ?thesis unfolding sub_trailing_digits_def by (simp only: if_False)
qed

text \<open>The username normaliser is idempotent on every string that holds no newline.\<close>

lemma normalize_username_idem_no_newline:
  assumes "CHR 0x0A \<notin> set s"
  shows "normalize_username (normalize_username s) = normalize_username s"
proof (cases "s = []")
  case True
  then show ?thesis by (simp add: normalize_username_def)
next
  case False
  define t where "t = filter (\<lambda>c. \<not> is_separator c) (lower s)"
  define r where "r = strip_trailing_digits t"
  have t_nl: "CHR 0x0A \<notin> set t"
  proof
    assume "CHR 0x0A \<in> set t"
    then obtain x where "x \<in> set s" "lower_char x = CHR 0x0A" by (auto simp: t_def lower_def)
    then show False using assms by (simp add: lower_char_newline)
  qed
  then have "sub_trailing_digits t = r" unfolding r_def by (rule sub_trailing_digits_no_newline)
  then have r: "normalize_username s = r"
    unfolding normalize_username_def t_def using False by simp
  have t_chars: "\<forall>c\<in>set t. lower_char c = c \<and> \<not> is_separator c"
  proof
    fix c assume "c \<in> set t"
    then have "c \<in> set (lower s)" and sep: "\<not> is_separator c" by (simp_all add: t_def)
    then obtain x where "c = lower_char x" by (auto simp: lower_def)
    then show "lower_char c = c \<and> \<not> is_separator c" using sep by (simp add: lower_char_idem)
  qed
  have sub: "set r \<subseteq> set t" unfolding r_def by (rule set_strip_trailing_digits)
  then have r_chars: "\<forall>c\<in>set r. lower_char c = c \<and> \<not> is_separator c" using t_chars by blast
  have "CHR 0x0A \<notin> set r" using sub t_nl by blast
  then have "sub_trailing_digits r = strip_trailing_digits r"
    by (rule sub_trailing_digits_no_newline)
  then have sr: "sub_trailing_digits r = r" by (simp add: r_def strip_trailing_digits_idem)
  have lr: "lower r = r" using r_chars by (simp add: lower_fixed)
  have "filter (\<lambda>c. \<not> is_separator c) (lower r) = r" unfolding lr using r_chars by simp
  then have "sub_trailing_digits (filter (\<lambda>c. \<not> is_separator c) (lower r)) = r"
    using sr by simp
  then have "normalize_username r = r" unfolding normalize_username_def by simp
  then show ?thesis by (simp add: r)
qed

text \<open>
  Claim C5: normalisation is idempotent, for the username normaliser and for the
  display-name normaliser, on every string. The display-name normaliser is
  (\<open>normalize_name_idem\<close>), and so is the username normaliser on strings without a
  newline (\<open>normalize_username_idem_no_newline\<close>); but the username normaliser is not
  idempotent on the four characters \<^verbatim>\<open>a\<close>, \<^verbatim>\<open>1\<close>, newline, \<^verbatim>\<open>2\<close>: the first pass removes
  the final \<^verbatim>\<open>2\<close> and leaves \<^verbatim>\<open>a1\<close> and the newline, where \<^verbatim>\<open>$\<close> now matches before the
  final newline, so that the second pass removes the \<^verbatim>\<open>1\<close> as well.
\<close>

theorem normalize_username_not_idempotent:
  "normalize_username [CHR ''a'', CHR ''1'', CHR 0x0A, CHR ''2''] = [CHR ''a'', CHR ''1'', CHR 0x0A]
   \<and> normalize_username (normalize_username [CHR ''a'', CHR ''1'', CHR 0x0A, CHR ''2''])
       = [CHR ''a'', CHR 0x0A]"
  by (simp add: string_defs)

subsection \<open>Blocking\<close>

lemmas blocking_defs = find_cross_platform_accounts_def find_matches_def group_profiles_def
  group_profile_def matches_of_def consolidate_matches_def profile_key_def member_key_def
  mk_profile_def empty_profile_def Let_def

lemma map_fst_group_append:
  "map fst (group_append k v g) = (if k \<in> set (map fst g) then map fst g else map fst g @ [k])"
  by (induction g) (auto simp: rev_image_eqI)

lemma keys_group_append: "fst ` set (group_append k v g) = insert k (fst ` set g)"
  using arg_cong[OF map_fst_group_append[of k v g], of set] by (auto split: if_splits)

lemma group_profile_username_keys:
  "[] \<notin> fst ` set (username_groups g) \<Longrightarrow>
     [] \<notin> fst ` set (username_groups (group_profile md5_hex g pd))"
  by (simp add: group_profile_def Let_def keys_group_append)

lemma foldl_group_profile_username_keys:
  "[] \<notin> fst ` set (username_groups g) \<Longrightarrow>
     [] \<notin> fst ` set (username_groups (foldl (group_profile md5_hex) g pds))"
  by (induction pds arbitrary: g) (simp_all add: group_profile_username_keys)

text \<open>The username pass never makes a bucket for the empty key.\<close>

lemma username_groups_no_empty_key:
  "[] \<notin> fst ` set (username_groups (group_profiles md5_hex pds))"
  unfolding group_profiles_def by (rule foldl_group_profile_username_keys) simp

text \<open>
  Claim C6: two records whose normalised identifier is empty never share a bucket and
  never become a candidate pair. The username pass guards the key
  (\<open>username_groups_no_empty_key\<close>); the display-name pass guards the raw name instead
  of the key, so two profiles whose display names are made of punctuation, \<^verbatim>\<open>!!!\<close> and
  \<^verbatim>\<open>???\<close>, both get the empty key and are reported as one display-name match.
\<close>

theorem empty_name_key_matches:
  "normalize_name ''!!!'' = [] \<and> normalize_name ''???'' = []
   \<and> find_cross_platform_accounts md5_hex tuple_digest [punct_instagram, punct_twitter] =
       Inr \<lparr> total_matches = 1,
             matches =
               [\<lparr> match_type = ''display_name'', confidence = 7 / 10,
                  profiles = [(''instagram'', punct_instagram), (''twitter'', punct_twitter)],
                  match_identifier = [] \<rparr>],
             cross_platform_users =
               [\<lparr> user_id = take 8 (tuple_digest [''instagram:alice'', ''twitter:bob'']),
                  cu_platforms = [''instagram'', ''twitter''],
                  cu_profiles = [(''instagram'', punct_instagram), (''twitter'', punct_twitter)],
                  match_confidence = 7 / 10, cu_match_type = ''display_name'' \<rparr>] \<rparr>"
  by (simp add: string_defs blocking_defs punct_instagram_def punct_twitter_def)

subsection \<open>Consolidation\<close>

lemma consolidate_loop_sound:
  "loop_inv acc P \<Longrightarrow> consolidate_loop d ms acc P = Inr cs \<Longrightarrow>
     (\<exists>new. cs = acc @ new \<and> (\<forall>c\<in>set new. \<exists>m\<in>set ms. built_from m c))
     \<and> (\<forall>m\<in>set ms. \<exists>c\<in>set cs. profile_key (cu_profiles c) = profile_key (profiles m))
     \<and> distinct (map (\<lambda>c. profile_key (cu_profiles c)) cs)"
proof (induction ms arbitrary: acc P)
  case Nil
  then show ?case by (simp add: loop_inv_def)
next
  case (Cons m ms)
  from Cons.prems(2) obtain k where k: "profile_key (profiles m) = Inr k"
    by (cases "profile_key (profiles m)") auto
  show ?case
  proof (cases "k \<in> P")
    case True
    then have run: "consolidate_loop d ms acc P = Inr cs" using Cons.prems(2) k by simp
    note ih = Cons.IH[OF Cons.prems(1) run]
    from True Cons.prems(1) obtain c where c: "c \<in> set acc" "profile_key (cu_profiles c) = Inr k"
      unfolding loop_inv_def by blast
    from ih obtain new where new: "cs = acc @ new" "\<forall>c\<in>set new. \<exists>m\<in>set ms. built_from m c"
      by blast
    have "\<exists>new. cs = acc @ new \<and> (\<forall>c\<in>set new. \<exists>m\<in>set (m # ms). built_from m c)"
      using new by auto
    moreover have "\<forall>m'\<in>set (m # ms). \<exists>c\<in>set cs. profile_key (cu_profiles c) = profile_key (profiles m')"
      using ih c new(1) k by auto
    ultimately show ?thesis using ih by blast
  next
    case False
    define e where "e = \<lparr> user_id = take 8 (d k), cu_platforms = map fst (profiles m),
       cu_profiles = profiles m, match_confidence = confidence m, cu_match_type = match_type m \<rparr>"
    have run: "consolidate_loop d ms (acc @ [e]) (insert k P) = Inr cs"
      using Cons.prems(2) k False by (simp add: e_def)
    have ek: "profile_key (cu_profiles e) = Inr k" by (simp add: e_def k)
    have ebuilt: "built_from m e" by (simp add: built_from_def e_def)
    have "Inr k \<notin> set (map (\<lambda>c. profile_key (cu_profiles c)) acc)"
      using Cons.prems(1) False unfolding loop_inv_def by auto
    then have inv: "loop_inv (acc @ [e]) (insert k P)"
      using Cons.prems(1) ek unfolding loop_inv_def by auto
    note ih = Cons.IH[OF inv run]
    from ih obtain new where new: "cs = (acc @ [e]) @ new" "\<forall>c\<in>set new. \<exists>m\<in>set ms. built_from m c"
      by blast
    have "cs = acc @ (e # new) \<and> (\<forall>c\<in>set (e # new). \<exists>m\<in>set (m # ms). built_from m c)"
      using new ebuilt by auto
    then have "\<exists>new. cs = acc @ new \<and> (\<forall>c\<in>set new. \<exists>m\<in>set (m # ms). built_from m c)"
      by blast
    moreover have "\<forall>m'\<in>set (m # ms). \<exists>c\<in>set cs. profile_key (cu_profiles c) = profile_key (profiles m')"
      using ih ek new(1) k by auto
    ultimately show ?thesis using ih by blast
  qed
qed

lemma map_raising_returns:
  "\<forall>x\<in>set xs. \<exists>y. f x = Inr y \<Longrightarrow> \<exists>ys. map_raising f xs = Inr ys"
  by (induction xs) auto

lemma consolidate_loop_returns:
  "\<forall>m\<in>set ms. \<exists>k. profile_key (profiles m) = Inr k \<Longrightarrow>
     \<exists>cs. consolidate_loop d ms acc P = Inr cs"
  by (induction ms arbitrary: acc P) auto

text \<open>
  Consolidation returns whenever every member of every match has a profile with a
  username; a member without one makes the subscript raise \<^verbatim>\<open>KeyError\<close>.
\<close>

lemma consolidate_matches_returns:
  assumes "\<forall>m\<in>set ms. \<forall>p\<in>set (profiles m). \<exists>k. member_key p = Inr k"
  shows "\<exists>cs. consolidate_matches d ms = Inr cs"
proof -
  have "\<forall>m\<in>set ms. \<exists>k. profile_key (profiles m) = Inr k"
  proof
    fix m assume "m \<in> set ms"
    then have "\<exists>ks. map_raising member_key (profiles m) = Inr ks"
      using assms by (intro map_raising_returns) blast
    then show "\<exists>k. profile_key (profiles m) = Inr k" by (auto simp: profile_key_def)
  qed
  then show ?thesis unfolding consolidate_matches_def by (rule consolidate_loop_returns)
qed

text \<open>
  Claim C8, as amended. Consolidation has no merge floor and computes no connected
  components: when it returns, every emitted entry carries the members, the confidence
  and the type of one single match, every match is represented by an entry with the same
  sorted member key, and no two entries have the same key; matches that share only some
  of their members stay separate entries.
\<close>

theorem consolidate_one_entry_per_key:
  "consolidate_matches d ms = Inr cs \<Longrightarrow>
     (\<forall>c\<in>set cs. \<exists>m\<in>set ms. built_from m c)
     \<and> (\<forall>m\<in>set ms. \<exists>c\<in>set cs. profile_key (cu_profiles c) = profile_key (profiles m))
     \<and> distinct (map (\<lambda>c. profile_key (cu_profiles c)) cs)"
  using consolidate_loop_sound[of "[]" "{}" d ms cs]
  by (auto simp: consolidate_matches_def loop_inv_def)

lemma jane_result:
  "find_cross_platform_accounts toy_md5_hex toy_tuple_digest jane_profiles =
     Inr \<lparr> total_matches = 2,
           matches = [\<lparr> match_type = ''username'', confidence = 9 / 10,
                        profiles = [(''instagram'', jane_instagram), (''twitter'', jane_twitter)],
                        match_identifier = ''jane'' \<rparr>,
                      \<lparr> match_type = ''display_name'', confidence = 7 / 10,
                        profiles = [(''twitter'', jane_twitter), (''youtube'', jd_youtube)],
                        match_identifier = ''jd'' \<rparr>],
           cross_platform_users = jane_users \<rparr>"
  by (simp add: string_defs blocking_defs jane_profiles_def jane_instagram_def jane_twitter_def
      jd_youtube_def jane_users_def toy_tuple_digest_def)

theorem consolidate_one_entry_per_key_witness:
  "consolidate_matches toy_tuple_digest (find_matches toy_md5_hex jane_profiles) = Inr jane_users
   \<and> distinct (map (\<lambda>c. profile_key (cu_profiles c)) jane_users)"
proof -
  have run: "consolidate_matches toy_tuple_digest (find_matches toy_md5_hex jane_profiles)
      = Inr jane_users"
    using jane_result by (simp add: find_cross_platform_accounts_def Let_def split: sum.splits)
  from consolidate_one_entry_per_key[OF run] show ?thesis using run by simp
qed

text \<open>
  Claim C8 as stated fails. The Instagram and Twitter profiles share the username key
  \<^verbatim>\<open>jane\<close> (match confidence 0.9), the Twitter and YouTube profiles share the name key
  \<^verbatim>\<open>jd\<close> (match confidence 0.7); both clear every floor up to 0.7, yet the two pairs are
  emitted as two entries and no entry holds the three profiles.
\<close>

theorem consolidate_not_transitive_counterexample:
  "map_sum id (\<lambda>r. map (\<lambda>m. (map fst (profiles m), confidence m)) (matches r))
       (find_cross_platform_accounts toy_md5_hex toy_tuple_digest jane_profiles)
     = Inr [([''instagram'', ''twitter''], 9 / 10), ([''twitter'', ''youtube''], 7 / 10)]
   \<and> map_sum id (\<lambda>r. map cu_platforms (cross_platform_users r))
       (find_cross_platform_accounts toy_md5_hex toy_tuple_digest jane_profiles)
     = Inr [[''instagram'', ''twitter''], [''twitter'', ''youtube'']]
   \<and> \<not> (\<exists>c\<in>set jane_users. set [''instagram'', ''twitter'', ''youtube''] \<subseteq> set (cu_platforms c))"
  by (simp add: jane_result) (simp add: jane_users_def)

subsection \<open>Temporal co-occurrence\<close>

text \<open>The loops count the posts of the first list that have a partner in the second.\<close>

lemma synchronized_with_eq:
  "synchronized_with w a ts = (if list_ex (\<lambda>b. \<bar>a - b\<bar> \<le> w) ts then 1 else 0)"
  by (induction ts) auto

lemma count_synchronized_eq:
  "count_synchronized w xs ts = length (filter (\<lambda>a. list_ex (\<lambda>b. \<bar>a - b\<bar> \<le> w) ts) xs)"
  by (induction xs) (auto simp: synchronized_with_eq)

text \<open>
  In the file as shipped the temporal score of two profiles that both have a parsed
  timestamp is not computed: the call raises \<^verbatim>\<open>NameError\<close>.
\<close>

lemma timing_shipped_name_error:
  "times1 \<noteq> [] \<Longrightarrow> times2 \<noteq> [] \<Longrightarrow>
     calculate_timing_correlation shipped_timedelta times1 times2 = Inl NameError"
  by (simp add: calculate_timing_correlation_def shipped_timedelta_def)

lemma timing_shipped_empty:
  "times1 = [] \<or> times2 = [] \<Longrightarrow>
     calculate_timing_correlation shipped_timedelta times1 times2 = Inr 0"
  by (auto simp: calculate_timing_correlation_def)

text \<open>
  The timestamps that enter are those of the posts whose date is present, not empty and
  parses, in their order: a post whose date fails to parse is skipped.
\<close>

lemma parse_post_times_eq:
  "parse_post_times fromisoformat ps =
     map (\<lambda>p. the (parse_date fromisoformat p))
       (filter (\<lambda>p. parse_date fromisoformat p \<noteq> None) ps)"
  by (induction ps) (auto simp: parse_post_times_def)

lemma platform_timings_burst_sparse:
  "platform_timings iso_table [burst_instagram, sparse_twitter] =
     [(''instagram'', [0, 3600000000, 7200000000]),
      (''twitter'', [0, 360000000000, 720000000000])]"
  by (simp add: platform_timings_def parse_post_times_def parse_date_def replace_Z_def
      iso_table_def burst_instagram_def sparse_twitter_def dated_post_def)

text \<open>
  Claim C9: the temporal score of a pair is the number of pairs of posts at most two hours
  apart over the smaller number of posts with a parsed timestamp, and a post whose
  timestamp fails to parse is left out without ending the computation. The code does not
  get that far. For one post against one post an hour later the stated score is 1 / 1,
  and \<^verbatim>\<open>_calculate_timing_correlation\<close> raises \<^verbatim>\<open>NameError\<close> at \<^verbatim>\<open>timedelta(hours=2)\<close>,
  a name the module never imports. The unparsable date of the Instagram profile below
  is skipped when the timestamps are collected, as the claim says, but the analysis of
  the batch then ends with the same \<^verbatim>\<open>NameError\<close>.
\<close>

theorem timing_raises_name_error:
  "calculate_timing_correlation shipped_timedelta [0] [3600000000] = Inl NameError
   \<and> spec_temporal_score [0] [3600000000] = 1
   \<and> parse_post_times iso_table (posts burst_instagram) = [0, 3600000000, 7200000000]
   \<and> analyze_timing_correlation shipped_timedelta iso_table [burst_instagram, sparse_twitter]
       = Inl NameError"
proof -
  have "calculate_timing_correlation shipped_timedelta [0] [3600000000] = Inl NameError"
    by (simp add: timing_shipped_name_error)
  moreover have "spec_temporal_score [0] [3600000000] = 1"
    by (simp add: spec_temporal_score_def timedelta_hours_def)
  moreover have "parse_post_times iso_table (posts burst_instagram)
      = [0, 3600000000, 7200000000]"
    by (simp add: parse_post_times_def parse_date_def replace_Z_def iso_table_def
        burst_instagram_def dated_post_def)
  moreover have "analyze_timing_correlation shipped_timedelta iso_table
      [burst_instagram, sparse_twitter] = Inl NameError"
    by (simp add: analyze_timing_correlation_def platform_timings_burst_sparse timing_pair_def
        calculate_timing_correlation_def shipped_timedelta_def)
  ultimately show ?thesis by blast
qed

subsection \<open>Range of the scores\<close>

text \<open>
  Claim C2: every signal score lies in \<open>[0, 1]\<close>; in particular the behavioural score
  and the temporal score. The code breaks both bounds. A profile most active at hour 0 on
  Mondays with empty posts against one most active at hour 23 on Sundays with posts of 100
  characters has the behavioural score \<open>-11/36\<close>: the hour term \<open>1 - 23/12\<close> is negative
  and is not floored at 0 as the day term is. Two posts an hour apart against one post
  at the same time have the temporal score 2 once \<^verbatim>\<open>timedelta\<close> is imported; as shipped
  the call raises \<^verbatim>\<open>NameError\<close> and yields no score at all.
\<close>

theorem scores_out_of_range:
  "calculate_behavioral_correlation midnight_monday_silent late_sunday_wordy = - 11 / 36
   \<and> calculate_timing_correlation imported_timedelta [0, 3600000000] [0] = Inr 2
   \<and> calculate_timing_correlation shipped_timedelta [0, 3600000000] [0] = Inl NameError"
  by (simp add: calculate_behavioral_correlation_def behavior_empty_def
      midnight_monday_silent_def late_sunday_wordy_def hour_correlations_def
      day_correlations_def length_correlations_def mean_def Let_def
      calculate_timing_correlation_def imported_timedelta_def shipped_timedelta_def
      timedelta_hours_def)

subsection \<open>Symmetry\<close>














subsection \<open>Variation generators\<close>

lemma length_concat_const:
  "(\<And>x. length (f x) = n) \<Longrightarrow> length (concat (map f xs)) = n * length xs"
  by (induction xs) simp_all

lemma length_numbered_variations: "length (numbered_variations u) = 396"
  unfolding numbered_variations_def
  by (subst length_concat_const[where n = 4]) simp_all

lemma length_suffix_variations: "length (suffix_variations u) = 21"
  unfolding suffix_variations_def
  by (subst length_concat_const[where n = 3]) simp_all

lemma str_of_nat_distinct: "distinct (map str_of_nat [1..<100])"
  by code_simp

lemma str_of_nat_no_underscore: "list_all (\<lambda>i. hd (str_of_nat i) \<noteq> CHR ''_'') [1..<100]"
  by code_simp

lemma str_of_nat_nonempty: "str_of_nat n \<noteq> []"
  by (subst str_of_nat.simps) simp

text \<open>
  Whatever the seed, the candidates \<open>seed1\<close> to \<open>seed99\<close> and \<open>seed_1\<close> to \<open>seed_99\<close> are
  198 different strings of the correlator's list.
\<close>

lemma correlator_at_least_198: "198 \<le> length (correlator_username_variations u)"
proof -
  define ds where "ds = map str_of_nat [1..<100]"
  define A where "A = map (\<lambda>d. u @ d) ds"
  define B where "B = map (\<lambda>d. u @ ''_'' @ d) ds"
  have ds1: "distinct ds" unfolding ds_def by (rule str_of_nat_distinct)
  have ds2: "length ds = 99" by (simp add: ds_def)
  have hd: "\<forall>d\<in>set ds. d \<noteq> [] \<and> hd d \<noteq> CHR ''_''"
    using str_of_nat_no_underscore[unfolded list_all_iff] str_of_nat_nonempty
    unfolding ds_def by auto
  have dA: "distinct A" unfolding A_def using ds1 by (simp add: distinct_map inj_on_def)
  have dB: "distinct B" unfolding B_def using ds1 by (simp add: distinct_map inj_on_def)
  have disj: "set A \<inter> set B = {}"
  proof (rule ccontr)
    assume "set A \<inter> set B \<noteq> {}"
    then obtain d e where "d \<in> set ds" "e \<in> set ds" "u @ d = u @ ''_'' @ e"
      by (auto simp: A_def B_def)
    then have "d = CHR ''_'' # e" by simp
    then show False using hd \<open>d \<in> set ds\<close> by auto
  qed
  have sub: "set (A @ B) \<subseteq> set (correlator_username_variations u)"
    by (auto simp: A_def B_def ds_def correlator_username_variations_def numbered_variations_def)
  have "distinct (A @ B)" using dA dB disj by simp
  then have "length (A @ B) = card (set (A @ B))" by (rule distinct_card[symmetric])
  also have "\<dots> \<le> card (set (correlator_username_variations u))"
    using sub by (intro card_mono) simp_all
  also have "\<dots> \<le> length (correlator_username_variations u)" by (rule card_length)
  finally show ?thesis by (simp add: A_def B_def ds2)
qed

text \<open>
  Claim C7, as amended. Both generators return a finite list without duplicates. The
  list of \<^verbatim>\<open>AdvancedDiscovery.generate_username_variations\<close> has at most 100 entries. The
  list of \<^verbatim>\<open>CrossPlatformCorrelator._generate_username_variations\<close> is not capped: it has
  at least 198 and at most 423 entries, for every seed.
\<close>

theorem variations_distinct_and_bounded:
  "distinct (generate_username_variations current_year base first_name last_name)
   \<and> length (generate_username_variations current_year base first_name last_name) \<le> 100
   \<and> distinct (correlator_username_variations u)
   \<and> 198 \<le> length (correlator_username_variations u)
   \<and> length (correlator_username_variations u) \<le> 423"
proof -
  have "distinct (generate_username_variations current_year base first_name last_name)
      \<and> length (generate_username_variations current_year base first_name last_name) \<le> 100"
    unfolding generate_username_variations_def
    by (intro conjI distinct_take)
      (simp_all only: distinct_sort distinct_remdups length_take min.cobounded2)
  moreover have "length (correlator_username_variations u)
      \<le> length (numbered_variations u @ suffix_variations u @ separator_variations u)"
    unfolding correlator_username_variations_def by (rule length_remdups_leq)
  then have "length (correlator_username_variations u) \<le> 423"
    by (simp add: length_numbered_variations length_suffix_variations separator_variations_def)
  moreover have "distinct (correlator_username_variations u)"
    by (simp add: correlator_username_variations_def)
  ultimately show ?thesis using correlator_at_least_198[of u] by blast
qed

text \<open>
  Claim C7 as stated fails: for the seed \<^verbatim>\<open>a\<close> the correlator's generator returns more
  than 100 candidates.
\<close>

theorem correlator_variations_counterexample:
  "\<not> length (correlator_username_variations ''a'') \<le> 100"
  using correlator_at_least_198[of "''a''"] by simp

subsection \<open>Presence on the platforms\<close>

lemma check_platforms_list:
  "check_platforms load u = map (\<lambda>p. (p, check_platform load p u)) platforms"
  by (simp add: check_platforms_def platforms_def)

lemma check_platform_found: "found (check_platform load p u) = loads_profile (load p u)"
  by (simp add: check_platform_def try_platform_def loads_profile_def not_found_def
      split: sum.splits platform_json.splits)

lemma check_platform_confidence:
  "pr_confidence (check_platform load p u) = (if loads_profile (load p u) then 100 else 0)"
  by (simp add: check_platform_def try_platform_def loads_profile_def not_found_def
      split: sum.splits platform_json.splits)

lemma check_platform_raises: "load p u = Inl e \<Longrightarrow> check_platform load p u = not_found"
  by (simp add: check_platform_def try_platform_def)

lemma check_platform_stored:
  "found (check_platform load p u) \<Longrightarrow> \<exists>v. pr_profile (check_platform load p u) = Some v"
  by (auto simp: check_platform_def try_platform_def not_found_def
      split: sum.splits platform_json.splits)

lemma check_platform_object:
  "found (check_platform load p u) \<Longrightarrow> \<not> malformed_profile (load p u) \<Longrightarrow>
     \<exists>q. pr_profile (check_platform load p u) = Some (Object q)"
  by (auto simp: check_platform_def try_platform_def not_found_def malformed_profile_def
      split: sum.splits platform_json.splits option.splits profile_value.splits)

lemma count_found:
  "length (filter (\<lambda>(p, d). found d) (check_platforms load u))
     = length (filter (\<lambda>p. loads_profile (load p u)) platforms)"
  by (simp add: check_platforms_list filter_map comp_def check_platform_found)

lemma map_raising_values:
  "map_raising f xs = Inr ys \<Longrightarrow> \<forall>y\<in>set ys. \<exists>x\<in>set xs. f x = Inr y"
proof (induction xs arbitrary: ys)
  case Nil
  then show ?case by simp
next
  case (Cons x xs)
  then show ?case by (auto split: sum.splits)
qed

text \<open>
  The analysis returns when fewer than two platforms are found, and when no file that
  is loaded has an entry \<^verbatim>\<open>profile\<close> that is no object.
\<close>

lemma analyze_correlations_returns:
  assumes "length (filter (\<lambda>p. loads_profile (load p u)) platforms) < 2
           \<or> (\<forall>p\<in>set platforms. \<not> malformed_profile (load p u))"
  shows "\<exists>a. analyze_correlations r it (check_platforms load u) = Inr a"
proof (cases "length (filter (\<lambda>p. loads_profile (load p u)) platforms) < 2")
  case True
  then show ?thesis
    using count_found[of load u] by (simp add: analyze_correlations_def Let_def)
next
  case False
  with assms have wf: "\<forall>p\<in>set platforms. \<not> malformed_profile (load p u)" by blast
  define fs where "fs = filter (\<lambda>(p, d). found d) (check_platforms load u)"
  have fs: "\<forall>x\<in>set fs. \<exists>q. pr_profile (snd x) = Some (Object q)"
    using wf check_platform_object by (auto simp: fs_def check_platforms_list)
  then have "\<forall>x\<in>set fs. \<exists>v. stored_profile x = Inr v"
    by (auto simp: stored_profile_def)
  then obtain stored where stored: "map_raising stored_profile fs = Inr stored"
    using map_raising_returns by blast
  have "\<forall>v\<in>set stored. \<exists>q. as_object v = Inr q"
  proof
    fix v assume "v \<in> set stored"
    then obtain x where x: "x \<in> set fs" "stored_profile x = Inr v"
      using map_raising_values[OF stored] by blast
    from x(1) fs obtain q where "pr_profile (snd x) = Some (Object q)" by blast
    with x(2) have "v = Object q" by (simp add: stored_profile_def)
    then show "\<exists>q. as_object v = Inr q" by (simp add: as_object_def)
  qed
  then obtain profs where "map_raising as_object stored = Inr profs"
    using map_raising_returns by blast
  then show ?thesis
    using stored by (simp add: analyze_correlations_def Let_def fs_def)
qed

lemma correlate_accounts_result:
  "correlate_accounts load r it u = Inr res \<Longrightarrow> platform_presence res = check_platforms load u"
  by (auto simp: correlate_accounts_def Let_def split: sum.splits)

text \<open>
  Claim C10, as amended. For every username, \<^verbatim>\<open>correlate_accounts\<close> returns a result when
  fewer than two platforms are found or no loaded file has an entry \<^verbatim>\<open>profile\<close> that is
  no object. Whenever it returns, \<^verbatim>\<open>platform_presence\<close> has exactly one entry for each of
  instagram, twitter, youtube, tiktok and linkedin; each entry carries the flag
  \<^verbatim>\<open>found\<close>, true with confidence 100 exactly when the loader handed back a non-empty
  object, false with confidence 0 otherwise; and an exception raised while one platform
  is loaded is caught: that platform's entry is \<^verbatim>\<open>found = False\<close>, \<^verbatim>\<open>confidence = 0\<close>.
\<close>

theorem correlate_accounts_presence:
  "(length (filter (\<lambda>p. loads_profile (load p u)) platforms) < 2
      \<or> (\<forall>p\<in>set platforms. \<not> malformed_profile (load p u))
     \<longrightarrow> (\<exists>res. correlate_accounts load r it u = Inr res))
   \<and> (correlate_accounts load r it u = Inr res \<longrightarrow>
        map fst (platform_presence res)
          = [''instagram'', ''twitter'', ''youtube'', ''tiktok'', ''linkedin'']
        \<and> map (\<lambda>(p, d). found d) (platform_presence res)
            = map (\<lambda>p. loads_profile (load p u)) platforms
        \<and> map (\<lambda>(p, d). pr_confidence d) (platform_presence res)
            = map (\<lambda>p. if loads_profile (load p u) then 100 else 0) platforms
        \<and> (p \<in> set platforms \<and> load p u = Inl e \<longrightarrow>
             map_of (platform_presence res) p
               = Some \<lparr> found = False, pr_profile = None, pr_confidence = 0 \<rparr>))"
proof (intro conjI impI)
  assume "length (filter (\<lambda>p. loads_profile (load p u)) platforms) < 2
      \<or> (\<forall>p\<in>set platforms. \<not> malformed_profile (load p u))"
  then obtain a where "analyze_correlations r it (check_platforms load u) = Inr a"
    using analyze_correlations_returns by blast
  then show "\<exists>res. correlate_accounts load r it u = Inr res"
    by (simp add: correlate_accounts_def Let_def)
next
  assume "correlate_accounts load r it u = Inr res"
  then have pres: "platform_presence res = map (\<lambda>p. (p, check_platform load p u)) platforms"
    by (simp add: correlate_accounts_result check_platforms_list)
  show "map fst (platform_presence res)
      = [''instagram'', ''twitter'', ''youtube'', ''tiktok'', ''linkedin'']"
    by (simp add: pres comp_def platforms_def)
  show "map (\<lambda>(p, d). found d) (platform_presence res)
      = map (\<lambda>p. loads_profile (load p u)) platforms"
    by (simp add: pres comp_def check_platform_found)
  show "map (\<lambda>(p, d). pr_confidence d) (platform_presence res)
      = map (\<lambda>p. if loads_profile (load p u) then 100 else 0) platforms"
    by (simp add: pres comp_def check_platform_confidence)
  assume h: "p \<in> set platforms \<and> load p u = Inl e"
  then have "map_of (map (\<lambda>p. (p, check_platform load p u)) platforms) p
      = Some (check_platform load p u)"
    by (simp add: map_of_map_restrict)
  then show "map_of (platform_presence res) p
      = Some \<lparr> found = False, pr_profile = None, pr_confidence = 0 \<rparr>"
    using h check_platform_raises[of load p u e] by (simp add: pres not_found_def)
qed

lemma sample_load_well_formed:
  "list_all (\<lambda>p. \<not> malformed_profile (sample_load p ''jane'')) platforms"
  by (simp add: platforms_def sample_load_def malformed_profile_def)

lemma sample_load_found:
  "map (\<lambda>p. loads_profile (sample_load p ''jane'')) platforms = [False, False, True, True, False]"
  by (simp add: platforms_def sample_load_def loads_profile_def)

theorem correlate_accounts_presence_witness:
  "list_all (\<lambda>p. \<not> malformed_profile (sample_load p ''jane'')) platforms
   \<and> ''instagram'' \<in> set platforms \<and> sample_load ''instagram'' ''jane'' = Inl OSError
   \<and> (\<exists>res. correlate_accounts sample_load constant_ratio some_set_order ''jane'' = Inr res
        \<and> map fst (platform_presence res)
            = [''instagram'', ''twitter'', ''youtube'', ''tiktok'', ''linkedin'']
        \<and> map (\<lambda>(p, d). found d) (platform_presence res) = [False, False, True, True, False]
        \<and> map_of (platform_presence res) ''instagram''
            = Some \<lparr> found = False, pr_profile = None, pr_confidence = 0 \<rparr>)"
proof -
  have wf: "\<forall>p\<in>set platforms. \<not> malformed_profile (sample_load p ''jane'')"
    using sample_load_well_formed by (simp add: list_all_iff)
  have h: "''instagram'' \<in> set platforms \<and> sample_load ''instagram'' ''jane'' = Inl OSError"
    by (simp add: platforms_def sample_load_def)
  from wf obtain res
    where res: "correlate_accounts sample_load constant_ratio some_set_order ''jane'' = Inr res"
    using correlate_accounts_presence[of sample_load "''jane''" constant_ratio some_set_order]
    by blast
  from res h sample_load_found
    correlate_accounts_presence[of sample_load "''jane''" constant_ratio some_set_order res
      "''instagram''" OSError]
  show ?thesis using sample_load_well_formed by auto
qed

text \<open>
  Claim C10 as stated fails. When the Instagram and the Twitter file both hold an object
  whose entry \<^verbatim>\<open>profile\<close> is \<^verbatim>\<open>null\<close>, both platforms are found, and the analysis that
  follows the loop calls \<^verbatim>\<open>.get\<close> on \<^verbatim>\<open>None\<close>: \<^verbatim>\<open>AttributeError\<close> leaves
  \<^verbatim>\<open>correlate_accounts\<close> and no result is returned.
\<close>

theorem correlate_accounts_raises_counterexample:
  "null_profile_load ''instagram'' ''jane'' = Inr (Json_object (Some Not_an_object))
   \<and> null_profile_load ''twitter'' ''jane'' = Inr (Json_object (Some Not_an_object))
   \<and> correlate_accounts null_profile_load constant_ratio some_set_order ''jane''
       = Inl AttributeError"
  by (simp add: correlate_accounts_def analyze_correlations_def check_platforms_def
      platforms_def check_platform_def try_platform_def null_profile_load_def not_found_def
      stored_profile_def as_object_def Let_def)

end
